theory Spec2Isabelle
  imports Main "HOL-Library.Monad_Syntax"
begin

unbundle bit_operations_syntax

section \<open>The constraint language handed to the solver\<close>

text \<open>
  The programs build \<^verbatim>\<open>z3::expr\<close> values and add them to a \<^verbatim>\<open>z3::solver\<close>. Only the
  constructors the sources use are modelled. An integer constant is named \<^verbatim>\<open>m_i_j\<close> or
  \<^verbatim>\<open>e\<close>, a boolean constant \<^verbatim>\<open>R_i_j\<close>; the names are kept as their indices. Every C++
  \<^verbatim>\<open>int\<close> is an \<open>int\<close> here; the one operation of the sources that can leave the range of
  a 32-bit \<^verbatim>\<open>int\<close> is the left shift, which is modelled as failing there.
\<close>

datatype ivar = mul_var int int | identity_var

datatype iexpr = IConst ivar | INum int

datatype expr =
    BConst int int
  | Eq iexpr iexpr
  | Ge iexpr iexpr
  | Lt iexpr iexpr
  | Neg expr
  | Conj expr expr
  | Implies expr expr
  | MkAnd "expr list"
  | MkOr "expr list"

text \<open>A model of the solver: a value for every declared constant.\<close>

record z3model =
  int_value :: "ivar \<Rightarrow> int"
  bool_value :: "int \<Rightarrow> int \<Rightarrow> bool"

fun eval_int :: "z3model \<Rightarrow> iexpr \<Rightarrow> int" where
  "eval_int M (IConst v) = int_value M v"
| "eval_int M (INum k) = k"

fun eval :: "z3model \<Rightarrow> expr \<Rightarrow> bool" where
  "eval M (BConst i j) = bool_value M i j"
| "eval M (Eq s t) = (eval_int M s = eval_int M t)"
| "eval M (Ge s t) = (eval_int M s \<ge> eval_int M t)"
| "eval M (Lt s t) = (eval_int M s < eval_int M t)"
| "eval M (Neg p) = (\<not> eval M p)"
| "eval M (Conj p q) = (eval M p \<and> eval M q)"
| "eval M (Implies p q) = (eval M p \<longrightarrow> eval M q)"
| "eval M (MkAnd ps) = list_all (eval M) ps"
| "eval M (MkOr ps) = list_ex (eval M) ps"

text \<open>A model satisfies an assertion set when every asserted proposition is true in it.\<close>

definition satisfies :: "z3model \<Rightarrow> expr list \<Rightarrow> bool" where
  "satisfies M cs = list_all (eval M) cs"

section \<open>GroupFinder (src/src/example\_groups.cpp)\<close>

subsection \<open>The variable table\<close>

definition mul_table :: "int \<Rightarrow> int \<Rightarrow> iexpr" where
  "mul_table i j = IConst (mul_var i j)"

definition identity :: iexpr where
  "identity = IConst identity_var"

subsection \<open>add\_group\_axioms, one definition per block of the function\<close>

text \<open>Lines 42-48: every entry of the table and the identity lie in \<open>{0, ..., n-1}\<close>.\<close>

definition domain_constraints :: "int \<Rightarrow> expr list" where
  "domain_constraints n =
     concat (map (\<lambda>i. map (\<lambda>j.
        Conj (Ge (mul_table i j) (INum 0)) (Lt (mul_table i j) (INum n)))
        [0..n - 1]) [0..n - 1])
     @ [Conj (Ge identity (INum 0)) (Lt identity (INum n))]"

text \<open>Lines 50-61: for each \<open>a\<close> the two vectors \<open>left_id\<close> and \<open>right_id\<close>, each added
  as one \<^verbatim>\<open>mk_and\<close>.\<close>

definition left_id :: "int \<Rightarrow> int \<Rightarrow> expr list" where
  "left_id n a =
     map (\<lambda>e. Implies (Eq identity (INum e)) (Eq (mul_table e a) (INum a))) [0..n - 1]"

definition right_id :: "int \<Rightarrow> int \<Rightarrow> expr list" where
  "right_id n a =
     map (\<lambda>e. Implies (Eq identity (INum e)) (Eq (mul_table a e) (INum a))) [0..n - 1]"

definition identity_axiom :: "int \<Rightarrow> expr list" where
  "identity_axiom n =
     concat (map (\<lambda>a. [MkAnd (left_id n a), MkAnd (right_id n a)]) [0..n - 1])"

text \<open>Lines 63-81: one implication for every \<open>a\<close>, \<open>b\<close>, \<open>c\<close>, \<open>ab\<close>, \<open>bc\<close>.\<close>

definition associativity_axiom :: "int \<Rightarrow> expr list" where
  "associativity_axiom n =
     concat (map (\<lambda>a. concat (map (\<lambda>b. concat (map (\<lambda>c.
       concat (map (\<lambda>ab. map (\<lambda>bc.
         Implies (Conj (Eq (mul_table a b) (INum ab)) (Eq (mul_table b c) (INum bc)))
                 (Eq (mul_table ab c) (mul_table a bc)))
         [0..n - 1]) [0..n - 1]))
       [0..n - 1])) [0..n - 1])) [0..n - 1])"

text \<open>Lines 83-93: for each \<open>a\<close> the two disjunctions \<open>has_right_inv\<close> and
  \<open>has_left_inv\<close>.\<close>

definition has_right_inv :: "int \<Rightarrow> int \<Rightarrow> expr list" where
  "has_right_inv n a = map (\<lambda>b. Eq (mul_table a b) identity) [0..n - 1]"

definition has_left_inv :: "int \<Rightarrow> int \<Rightarrow> expr list" where
  "has_left_inv n a = map (\<lambda>b. Eq (mul_table b a) identity) [0..n - 1]"

definition inverse_axiom :: "int \<Rightarrow> expr list" where
  "inverse_axiom n =
     concat (map (\<lambda>a. [MkOr (has_right_inv n a), MkOr (has_left_inv n a)]) [0..n - 1])"

definition add_group_axioms :: "int \<Rightarrow> expr list" where
  "add_group_axioms n =
     domain_constraints n @ identity_axiom n @ associativity_axiom n @ inverse_axiom n"

subsection \<open>verify\_group\<close>

text \<open>
  The verifier works on a \<^verbatim>\<open>std::vector<std::vector<int>>\<close>. Subscripting a vector out
  of range is undefined in C++; here it is the value \<open>None\<close>, so that a verifier run that
  returns \<open>Some\<close> made only in-range accesses.
\<close>

type_synonym table = "int list list"

definition table_at :: "table \<Rightarrow> int \<Rightarrow> int \<Rightarrow> int option" where
  "table_at t i j =
     (if 0 \<le> i \<and> i < int (length t) then
        (if 0 \<le> j \<and> j < int (length (t ! nat i)) then Some (t ! nat i ! nat j) else None)
      else None)"

text \<open>Lines 126-132: the concrete table read back from the model.\<close>

definition extract_table :: "int \<Rightarrow> z3model \<Rightarrow> table" where
  "extract_table n M =
     map (\<lambda>i. map (\<lambda>j. int_value M (mul_var i j)) [0..n - 1]) [0..n - 1]"

text \<open>Lines 134-141: the identity loop, leaving at the first failure. The \<^verbatim>\<open>||\<close> reads
  \<^verbatim>\<open>table[a][e]\<close> only when \<^verbatim>\<open>table[e][a] == a\<close>.\<close>

fun identity_loop :: "table \<Rightarrow> int \<Rightarrow> int list \<Rightarrow> bool option" where
  "identity_loop t e [] = Some True"
| "identity_loop t e (a # as) =
     do { ea \<leftarrow> table_at t e a;
          if ea \<noteq> a then Some False
          else do { ae \<leftarrow> table_at t a e;
                    if ae \<noteq> a then Some False else identity_loop t e as } }"

text \<open>Lines 144-156: three nested loops, each guarded by \<^verbatim>\<open>&& assoc_ok\<close>.\<close>

fun assoc_loop_c :: "table \<Rightarrow> int \<Rightarrow> int \<Rightarrow> int list \<Rightarrow> bool \<Rightarrow> bool option" where
  "assoc_loop_c t a b [] assoc_ok = Some assoc_ok"
| "assoc_loop_c t a b (c # cs) assoc_ok =
     (if \<not> assoc_ok then Some assoc_ok
      else do { ab \<leftarrow> table_at t a b;
                ab_c \<leftarrow> table_at t ab c;
                bc \<leftarrow> table_at t b c;
                a_bc \<leftarrow> table_at t a bc;
                assoc_loop_c t a b cs (if ab_c \<noteq> a_bc then False else assoc_ok) })"

fun assoc_loop_b :: "table \<Rightarrow> int \<Rightarrow> int \<Rightarrow> int list \<Rightarrow> bool \<Rightarrow> bool option" where
  "assoc_loop_b t n a [] assoc_ok = Some assoc_ok"
| "assoc_loop_b t n a (b # bs) assoc_ok =
     (if \<not> assoc_ok then Some assoc_ok
      else do { ok \<leftarrow> assoc_loop_c t a b [0..n - 1] assoc_ok;
                assoc_loop_b t n a bs ok })"

fun assoc_loop_a :: "table \<Rightarrow> int \<Rightarrow> int list \<Rightarrow> bool \<Rightarrow> bool option" where
  "assoc_loop_a t n [] assoc_ok = Some assoc_ok"
| "assoc_loop_a t n (a # as) assoc_ok =
     (if \<not> assoc_ok then Some assoc_ok
      else do { ok \<leftarrow> assoc_loop_b t n a [0..n - 1] assoc_ok;
                assoc_loop_a t n as ok })"

text \<open>Lines 159-170: for each \<open>a\<close> the search for one \<open>b\<close> that is an inverse on both
  sides; the \<^verbatim>\<open>&&\<close> reads \<^verbatim>\<open>table[b][a]\<close> only when \<^verbatim>\<open>table[a][b] == e\<close>.\<close>

fun has_inv_loop :: "table \<Rightarrow> int \<Rightarrow> int \<Rightarrow> int list \<Rightarrow> bool option" where
  "has_inv_loop t e a [] = Some False"
| "has_inv_loop t e a (b # bs) =
     do { x \<leftarrow> table_at t a b;
          if x = e then
            do { y \<leftarrow> table_at t b a;
                 if y = e then Some True else has_inv_loop t e a bs }
          else has_inv_loop t e a bs }"

fun inv_loop :: "table \<Rightarrow> int \<Rightarrow> int \<Rightarrow> int list \<Rightarrow> bool \<Rightarrow> bool option" where
  "inv_loop t n e [] inv_ok = Some inv_ok"
| "inv_loop t n e (a # as) inv_ok =
     (if \<not> inv_ok then Some inv_ok
      else do { has_inv \<leftarrow> has_inv_loop t e a [0..n - 1];
                inv_loop t n e as (if \<not> has_inv then False else inv_ok) })"

text \<open>The three verdicts the function prints, in the order it prints them.\<close>

record verdicts =
  identity_ok :: bool
  assoc_ok :: bool
  inv_ok :: bool

definition check_identity :: "int \<Rightarrow> table \<Rightarrow> int \<Rightarrow> bool option" where
  "check_identity n t e = identity_loop t e [0..n - 1]"

definition check_associativity :: "int \<Rightarrow> table \<Rightarrow> bool option" where
  "check_associativity n t = assoc_loop_a t n [0..n - 1] True"

definition check_inverses :: "int \<Rightarrow> table \<Rightarrow> int \<Rightarrow> bool option" where
  "check_inverses n t e = inv_loop t n e [0..n - 1] True"

definition verify_table :: "int \<Rightarrow> table \<Rightarrow> int \<Rightarrow> verdicts option" where
  "verify_table n t e =
     do { i \<leftarrow> check_identity n t e;
          a \<leftarrow> check_associativity n t;
          v \<leftarrow> check_inverses n t e;
          Some \<lparr>identity_ok = i, assoc_ok = a, inv_ok = v\<rparr> }"

definition verify_group :: "int \<Rightarrow> z3model \<Rightarrow> int \<Rightarrow> verdicts option" where
  "verify_group n M e = verify_table n (extract_table n M) e"

section \<open>Bitmask utilities (namespace BitOps)\<close>

text \<open>
  The left shift \<^verbatim>\<open>a << k\<close> on a 32-bit \<^verbatim>\<open>int\<close> has a value only for a shift count in
  \<open>0..31\<close>, a non-negative \<open>a\<close> and a result that fits the type; everywhere else the C++
  program has no defined behaviour, which is the value \<open>None\<close>.
\<close>

definition INT_MAX :: int where
  "INT_MAX = 2 ^ 31 - 1"

definition shift_left :: "int \<Rightarrow> int \<Rightarrow> int option" where
  "shift_left a k =
     (if 0 \<le> k \<and> k < 32 \<and> 0 \<le> a \<and> push_bit (nat k) a \<le> INT_MAX
      then Some (push_bit (nat k) a) else None)"

definition contains :: "int \<Rightarrow> int \<Rightarrow> bool option" where
  "contains msk k = do { b \<leftarrow> shift_left 1 k; Some ((msk AND b) \<noteq> 0) }"

definition set_union :: "int \<Rightarrow> int \<Rightarrow> int" where
  "set_union mask1 mask2 = mask1 OR mask2"

definition set_intersection :: "int \<Rightarrow> int \<Rightarrow> int" where
  "set_intersection mask1 mask2 = mask1 AND mask2"

definition set_complement :: "int \<Rightarrow> int \<Rightarrow> int option" where
  "set_complement msk n = do { b \<leftarrow> shift_left 1 n; Some ((b - 1) XOR msk) }"

definition is_subset :: "int \<Rightarrow> int \<Rightarrow> bool" where
  "is_subset mask1 mask2 \<longleftrightarrow> (mask1 AND mask2) = mask1"

text \<open>
  The popcount loop. \<^verbatim>\<open>mask >>= 1\<close> on a signed \<^verbatim>\<open>int\<close> is the arithmetic shift, which is
  \<open>drop_bit 1\<close> on \<open>int\<close>; on a negative mask it never reaches 0, so the loop is a partial
  function and not returning is the value \<open>None\<close>.
\<close>

partial_function (option) cardinality_loop :: "int \<Rightarrow> int \<Rightarrow> int option" where
  "cardinality_loop msk count =
     (if msk \<noteq> 0 then cardinality_loop (drop_bit 1 msk) (count + (msk AND 1))
      else Some count)"

definition cardinality :: "int \<Rightarrow> int option" where
  "cardinality msk = cardinality_loop msk 0"

section \<open>PartialPreorderFinder (second program of src/src/example\_groups.cpp)\<close>

text \<open>The constructor computes \<^verbatim>\<open>powerset_size(1 << universe_size)\<close>; the boolean constant
  \<^verbatim>\<open>R[i][j]\<close> is named \<^verbatim>\<open>R_i_j\<close>.\<close>

record preorder_finder =
  finder_n :: int
  finder_powerset_size :: int

definition PartialPreorderFinder :: "int \<Rightarrow> preorder_finder option" where
  "PartialPreorderFinder universe_size' =
     do { ps \<leftarrow> shift_left 1 universe_size';
          Some \<lparr>finder_n = universe_size', finder_powerset_size = ps\<rparr> }"

definition finder_R :: "preorder_finder \<Rightarrow> int \<Rightarrow> int \<Rightarrow> expr" where
  "finder_R f i j = BConst i j"

definition add_preorder_axioms :: "preorder_finder \<Rightarrow> expr list" where
  "add_preorder_axioms f =
     (let ps = finder_powerset_size f in
      map (\<lambda>i. finder_R f i i) [0..ps - 1]
      @ concat (map (\<lambda>i. concat (map (\<lambda>j. map (\<lambda>k.
          Implies (Conj (finder_R f i j) (finder_R f j k)) (finder_R f i k))
          [0..ps - 1]) [0..ps - 1])) [0..ps - 1]))"

definition add_monotonicity :: "preorder_finder \<Rightarrow> expr list" where
  "add_monotonicity f =
     (let ps = finder_powerset_size f in
      concat (map (\<lambda>i. concat (map (\<lambda>j.
        if is_subset i j then [finder_R f i j] else []) [0..ps - 1])) [0..ps - 1]))"

definition require_nontrivial :: "preorder_finder \<Rightarrow> expr list" where
  "require_nontrivial f =
     (let ps = finder_powerset_size f in
      [MkOr (concat (map (\<lambda>i. concat (map (\<lambda>j.
        if i \<noteq> j then [Conj (finder_R f i j) (Neg (finder_R f j i))] else [])
        [0..ps - 1])) [0..ps - 1]))])"

section \<open>FrameVariables, AxiomEncoder and FrameFinder (src/unnamed/part\_000)\<close>

record frame_variables =
  universe_size :: int
  powerset_size :: int

definition FrameVariables :: "int \<Rightarrow> frame_variables option" where
  "FrameVariables universe_size' =
     do { ps \<leftarrow> shift_left 1 universe_size';
          Some \<lparr>universe_size = universe_size', powerset_size = ps\<rparr> }"

definition get_R :: "frame_variables \<Rightarrow> int \<Rightarrow> int \<Rightarrow> expr" where
  "get_R vars i j = BConst i j"

subsection \<open>AxiomEncoder\<close>

definition encode_transitivity :: "frame_variables \<Rightarrow> expr list" where
  "encode_transitivity vars =
     (let ps = powerset_size vars in
      concat (map (\<lambda>i. concat (map (\<lambda>j. map (\<lambda>k.
        Implies (Conj (get_R vars i j) (get_R vars j k)) (get_R vars i k))
        [0..ps - 1]) [0..ps - 1])) [0..ps - 1]))"

definition encode_monotonicity :: "frame_variables \<Rightarrow> expr list" where
  "encode_monotonicity vars =
     (let ps = powerset_size vars in
      concat (map (\<lambda>i. concat (map (\<lambda>j.
        if is_subset i j then [get_R vars i j] else []) [0..ps - 1])) [0..ps - 1]))"

definition encode_non_triviality :: "frame_variables \<Rightarrow> expr list" where
  "encode_non_triviality vars =
     (let full_set = powerset_size vars - 1; empty_set = 0 in
      [Neg (get_R vars full_set empty_set)])"

subsection \<open>FrameFinder: the extracted matrix and its verification\<close>

text \<open>
  \<^verbatim>\<open>display_model\<close> builds the matrix with \<^verbatim>\<open>vars.size()\<close> rows and columns and the
  verifiers subscript it with their loop counters below \<^verbatim>\<open>vars.size()\<close>, and with
  \<^verbatim>\<open>vars.size() - 1\<close> and \<open>0\<close>. A failed \<^verbatim>\<open>assert\<close> ends the process; it is the value
  \<open>Inl\<close> of the assertion.
\<close>

type_synonym matrix = "bool list list"

datatype assertion =
    Reflexivity_check_failed
  | Transitivity_check_failed
  | Monotonicity_check_failed
  | Non_triviality_check_failed

definition extract_matrix :: "frame_variables \<Rightarrow> z3model \<Rightarrow> matrix" where
  "extract_matrix vars M =
     (let ps = powerset_size vars in
      map (\<lambda>i. map (\<lambda>j. eval M (get_R vars i j)) [0..ps - 1]) [0..ps - 1])"

definition matrix_at :: "matrix \<Rightarrow> int \<Rightarrow> int \<Rightarrow> bool" where
  "matrix_at mx i j = mx ! nat i ! nat j"

fun reflexive_loop :: "matrix \<Rightarrow> int list \<Rightarrow> bool" where
  "reflexive_loop mx [] = True"
| "reflexive_loop mx (i # is) =
     (if \<not> matrix_at mx i i then False else reflexive_loop mx is)"

fun transitive_loop_k :: "matrix \<Rightarrow> int \<Rightarrow> int \<Rightarrow> int list \<Rightarrow> bool \<Rightarrow> bool" where
  "transitive_loop_k mx i j [] transitive_ok = transitive_ok"
| "transitive_loop_k mx i j (k # ks) transitive_ok =
     (if \<not> transitive_ok then transitive_ok
      else transitive_loop_k mx i j ks
             (if matrix_at mx i j \<and> matrix_at mx j k \<and> \<not> matrix_at mx i k then False
              else transitive_ok))"

fun transitive_loop_j :: "matrix \<Rightarrow> int \<Rightarrow> int \<Rightarrow> int list \<Rightarrow> bool \<Rightarrow> bool" where
  "transitive_loop_j mx ps i [] transitive_ok = transitive_ok"
| "transitive_loop_j mx ps i (j # js) transitive_ok =
     (if \<not> transitive_ok then transitive_ok
      else transitive_loop_j mx ps i js (transitive_loop_k mx i j [0..ps - 1] transitive_ok))"

fun transitive_loop_i :: "matrix \<Rightarrow> int \<Rightarrow> int list \<Rightarrow> bool \<Rightarrow> bool" where
  "transitive_loop_i mx ps [] transitive_ok = transitive_ok"
| "transitive_loop_i mx ps (i # is) transitive_ok =
     (if \<not> transitive_ok then transitive_ok
      else transitive_loop_i mx ps is (transitive_loop_j mx ps i [0..ps - 1] transitive_ok))"

definition verify_preorder :: "frame_variables \<Rightarrow> matrix \<Rightarrow> assertion + unit" where
  "verify_preorder vars mx =
     (let ps = powerset_size vars;
          reflexive_ok = reflexive_loop mx [0..ps - 1] in
      if \<not> reflexive_ok then Inl Reflexivity_check_failed
      else let transitive_ok = transitive_loop_i mx ps [0..ps - 1] True in
           if \<not> transitive_ok then Inl Transitivity_check_failed else Inr ())"

text \<open>The monotonicity loops print every violation and do not leave early.\<close>

fun monotonicity_loop_j :: "matrix \<Rightarrow> int \<Rightarrow> int list \<Rightarrow> bool \<Rightarrow> bool" where
  "monotonicity_loop_j mx i [] monotonicity_ok = monotonicity_ok"
| "monotonicity_loop_j mx i (j # js) monotonicity_ok =
     monotonicity_loop_j mx i js
       (if is_subset i j \<and> \<not> matrix_at mx i j then False else monotonicity_ok)"

fun monotonicity_loop_i :: "matrix \<Rightarrow> int \<Rightarrow> int list \<Rightarrow> bool \<Rightarrow> bool" where
  "monotonicity_loop_i mx ps [] monotonicity_ok = monotonicity_ok"
| "monotonicity_loop_i mx ps (i # is) monotonicity_ok =
     monotonicity_loop_i mx ps is (monotonicity_loop_j mx i [0..ps - 1] monotonicity_ok)"

definition verify_monotonicity :: "frame_variables \<Rightarrow> matrix \<Rightarrow> assertion + unit" where
  "verify_monotonicity vars mx =
     (let ps = powerset_size vars;
          monotonicity_ok = monotonicity_loop_i mx ps [0..ps - 1] True in
      if \<not> monotonicity_ok then Inl Monotonicity_check_failed else Inr ())"

definition verify_non_triviality :: "frame_variables \<Rightarrow> matrix \<Rightarrow> assertion + unit" where
  "verify_non_triviality vars mx =
     (let full_set = powerset_size vars - 1; empty_set = 0;
          non_triviality_ok = \<not> matrix_at mx full_set empty_set in
      if \<not> non_triviality_ok then Inl Non_triviality_check_failed else Inr ())"

definition display_model :: "frame_variables \<Rightarrow> z3model \<Rightarrow> assertion + unit" where
  "display_model vars M =
     (let mx = extract_matrix vars M in
      case verify_preorder vars mx of Inl a \<Rightarrow> Inl a
      | Inr _ \<Rightarrow> (case verify_monotonicity vars mx of Inl a \<Rightarrow> Inl a
                 | Inr _ \<Rightarrow> verify_non_triviality vars mx))"

subsection \<open>The run of main, for a universe size and a solver\<close>

text \<open>
  The solver is outside the repository: it is a parameter, a function from the assertion
  set to its answer. \<^verbatim>\<open>main\<close> asserts transitivity, monotonicity and non-triviality, in
  this order, calls the solver once and reports.
\<close>

datatype check_result = Sat z3model | Unsat | Unknown

datatype report = SAT_Solution_found | UNSAT_No_solution_exists | UNKNOWN_Solver_could_not_determine

definition main_axioms :: "frame_variables \<Rightarrow> expr list" where
  "main_axioms vars =
     encode_transitivity vars @ encode_monotonicity vars @ encode_non_triviality vars"

definition frame_finder_main ::
    "int \<Rightarrow> (expr list \<Rightarrow> check_result) \<Rightarrow> (assertion + report) option" where
  "frame_finder_main n check =
     do { vars \<leftarrow> FrameVariables n;
          Some (case check (main_axioms vars) of
                  Sat M \<Rightarrow> (case display_model vars M of Inl a \<Rightarrow> Inl a
                            | Inr _ \<Rightarrow> Inr SAT_Solution_found)
                | Unsat \<Rightarrow> Inr UNSAT_No_solution_exists
                | Unknown \<Rightarrow> Inr UNKNOWN_Solver_could_not_determine) }"

section \<open>Auxiliary notions and the concrete models the instances below are checked on\<close>

text \<open>The value a model gives to the table entry \<^verbatim>\<open>mul_table[i][j]\<close>.\<close>

definition mul_value :: "z3model \<Rightarrow> int \<Rightarrow> int \<Rightarrow> int" where
  "mul_value M i j = int_value M (mul_var i j)"

text \<open>Closure: every entry of the \<open>n\<close>-by-\<open>n\<close> table lies in \<open>{0, ..., n-1}\<close>.\<close>

definition closed_table :: "int \<Rightarrow> z3model \<Rightarrow> bool" where
  "closed_table n M =
     list_all (\<lambda>i. list_all (\<lambda>j. 0 \<le> mul_value M i j \<and> mul_value M i j < n) [0..n - 1])
       [0..n - 1]"

text \<open>The two-element group, with identity 0.\<close>

definition z2_model :: z3model where
  "z2_model =
     \<lparr>int_value = (\<lambda>v. case v of mul_var i j \<Rightarrow> (i + j) mod 2 | identity_var \<Rightarrow> 0),
      bool_value = (\<lambda>i j. False)\<rparr>"

text \<open>A one-element table whose only entry is 1, outside \<open>{0}\<close>.\<close>

definition unclosed_model :: z3model where
  "unclosed_model =
     \<lparr>int_value = (\<lambda>v. case v of mul_var i j \<Rightarrow> 1 | identity_var \<Rightarrow> 0),
      bool_value = (\<lambda>i j. False)\<rparr>"

text \<open>Universe size 1, and the relation that is subset inclusion itself.\<close>

definition two_subsets :: frame_variables where
  "two_subsets = \<lparr>universe_size = 1, powerset_size = 2\<rparr>"

definition subset_order :: z3model where
  "subset_order = \<lparr>int_value = (\<lambda>v. 0), bool_value = is_subset\<rparr>"

section \<open>Satisfaction of the group axioms by a model\<close>

lemma satisfies_append: "satisfies M (xs @ ys) \<longleftrightarrow> satisfies M xs \<and> satisfies M ys"
  by (simp add: satisfies_def)

lemma satisfies_iff: "satisfies M cs \<longleftrightarrow> (\<forall>p\<in>set cs. eval M p)"
  by (simp add: satisfies_def list_all_iff)

lemma closed_table_iff:
  "closed_table n M \<longleftrightarrow> (\<forall>i\<in>{0..n - 1}. \<forall>j\<in>{0..n - 1}. mul_value M i j \<in> {0..n - 1})"
  by (auto simp: closed_table_def list_all_iff)

lemma closed_tableD:
  "closed_table n M \<Longrightarrow> i \<in> {0..n - 1} \<Longrightarrow> j \<in> {0..n - 1} \<Longrightarrow> mul_value M i j \<in> {0..n - 1}"
  by (simp add: closed_table_iff)

lemma satisfies_domain_constraints:
  "satisfies M (domain_constraints n) \<longleftrightarrow>
     closed_table n M \<and> int_value M identity_var \<in> {0..n - 1}"
  by (auto simp: satisfies_iff domain_constraints_def closed_table_iff mul_table_def
      identity_def mul_value_def)

lemma satisfies_identity_axiom:
  "satisfies M (identity_axiom n) \<longleftrightarrow>
     (\<forall>a\<in>{0..n - 1}. \<forall>e\<in>{0..n - 1}. int_value M identity_var = e \<longrightarrow>
        mul_value M e a = a \<and> mul_value M a e = a)"
  by (auto simp: satisfies_iff identity_axiom_def left_id_def right_id_def list_all_iff
      mul_table_def identity_def mul_value_def)

lemma satisfies_associativity_axiom:
  "satisfies M (associativity_axiom n) \<longleftrightarrow>
     (\<forall>a\<in>{0..n - 1}. \<forall>b\<in>{0..n - 1}. \<forall>c\<in>{0..n - 1}. \<forall>ab\<in>{0..n - 1}. \<forall>bc\<in>{0..n - 1}.
        mul_value M a b = ab \<and> mul_value M b c = bc \<longrightarrow> mul_value M ab c = mul_value M a bc)"
  unfolding satisfies_iff associativity_axiom_def mul_table_def mul_value_def
  by (simp only: set_concat set_map set_upto image_image UN_iff ball_UN ball_simps
      eval.simps eval_int.simps)

lemma associativity_axiom_direct:
  assumes "closed_table n M"
  shows "satisfies M (associativity_axiom n) \<longleftrightarrow>
     (\<forall>a\<in>{0..n - 1}. \<forall>b\<in>{0..n - 1}. \<forall>c\<in>{0..n - 1}.
        mul_value M (mul_value M a b) c = mul_value M a (mul_value M b c))"
  unfolding satisfies_associativity_axiom
  using closed_tableD [OF assms] by blast

lemma satisfies_inverse_axiom:
  "satisfies M (inverse_axiom n) \<longleftrightarrow>
     (\<forall>a\<in>{0..n - 1}. (\<exists>b\<in>{0..n - 1}. mul_value M a b = int_value M identity_var) \<and>
                      (\<exists>b\<in>{0..n - 1}. mul_value M b a = int_value M identity_var))"
  by (auto simp: satisfies_iff inverse_axiom_def has_right_inv_def has_left_inv_def list_ex_iff
      mul_table_def identity_def mul_value_def)

lemma satisfies_add_group_axioms:
  "satisfies M (add_group_axioms n) \<longleftrightarrow>
     satisfies M (domain_constraints n) \<and> satisfies M (identity_axiom n) \<and>
     satisfies M (associativity_axiom n) \<and> satisfies M (inverse_axiom n)"
  by (simp add: add_group_axioms_def satisfies_append)

text \<open>In a model of all four blocks a right inverse and a left inverse of an element
  coincide: \<open>l = l * e = l * (a * r) = (l * a) * r = e * r = r\<close>.\<close>

lemma joint_inverse_of_axioms:
  assumes "satisfies M (add_group_axioms n)" and a: "a \<in> {0..n - 1}"
  shows "\<exists>b\<in>{0..n - 1}. mul_value M a b = int_value M identity_var \<and>
                         mul_value M b a = int_value M identity_var"
proof -
  define e where "e = int_value M identity_var"
  from assms(1) have cl: "closed_table n M" and e: "e \<in> {0..n - 1}"
    by (simp_all add: satisfies_add_group_axioms satisfies_domain_constraints e_def)
  from assms(1) e have idl: "\<And>x. x \<in> {0..n - 1} \<Longrightarrow> mul_value M e x = x"
    and idr: "\<And>x. x \<in> {0..n - 1} \<Longrightarrow> mul_value M x e = x"
    by (simp_all add: satisfies_add_group_axioms satisfies_identity_axiom e_def)
  from assms(1) cl have assoc:
    "\<And>x y z. x \<in> {0..n - 1} \<Longrightarrow> y \<in> {0..n - 1} \<Longrightarrow> z \<in> {0..n - 1} \<Longrightarrow>
       mul_value M (mul_value M x y) z = mul_value M x (mul_value M y z)"
    by (simp add: satisfies_add_group_axioms associativity_axiom_direct)
  from assms(1) a have
    "(\<exists>b\<in>{0..n - 1}. mul_value M a b = e) \<and> (\<exists>b\<in>{0..n - 1}. mul_value M b a = e)"
    by (simp add: satisfies_add_group_axioms satisfies_inverse_axiom e_def)
  then obtain r l where r: "r \<in> {0..n - 1}" "mul_value M a r = e"
    and l: "l \<in> {0..n - 1}" "mul_value M l a = e"
    by blast
  have "l = mul_value M l e" using idr [OF l(1)] by simp
  also have "\<dots> = mul_value M l (mul_value M a r)" using r(2) by simp
  also have "\<dots> = mul_value M (mul_value M l a) r" using assoc [OF l(1) a r(1)] by simp
  also have "\<dots> = mul_value M e r" using l(2) by simp
  also have "\<dots> = r" using idl [OF r(1)] by simp
  finally have "l = r" .
  with r l show ?thesis unfolding e_def by blast
qed

section \<open>What the loops of verify\_group compute on an extracted table\<close>

lemma table_at_extract:
  assumes "i \<in> {0..n - 1}" "j \<in> {0..n - 1}"
  shows "table_at (extract_table n M) i j = Some (mul_value M i j)"
  using assms by (simp add: table_at_def extract_table_def mul_value_def)

lemma identity_loop_extract:
  assumes "e \<in> {0..n - 1}" "set as \<subseteq> {0..n - 1}"
  shows "identity_loop (extract_table n M) e as =
           Some (\<forall>a\<in>set as. mul_value M e a = a \<and> mul_value M a e = a)"
  using assms by (induction as) (auto simp: table_at_extract)

lemma assoc_loop_c_extract:
  assumes "closed_table n M" "a \<in> {0..n - 1}" "b \<in> {0..n - 1}" "set cs \<subseteq> {0..n - 1}"
  shows "assoc_loop_c (extract_table n M) a b cs ok =
           Some (ok \<and> (\<forall>c\<in>set cs.
              mul_value M (mul_value M a b) c = mul_value M a (mul_value M b c)))"
  using assms(4)
proof (induction cs arbitrary: ok)
  case Nil
  then show ?case by simp
next
  case (Cons c cs)
  then have c: "c \<in> {0..n - 1}" and cs: "set cs \<subseteq> {0..n - 1}" by auto
  have ab: "mul_value M a b \<in> {0..n - 1}"
    by (rule closed_tableD [OF assms(1) assms(2) assms(3)])
  have bc: "mul_value M b c \<in> {0..n - 1}"
    by (rule closed_tableD [OF assms(1) assms(3) c])
  show ?case
    using Cons.IH [OF cs] assms(2,3) c ab bc
    by (simp add: table_at_extract)
qed

lemma assoc_loop_b_extract:
  assumes "closed_table n M" "a \<in> {0..n - 1}" "set bs \<subseteq> {0..n - 1}"
  shows "assoc_loop_b (extract_table n M) n a bs ok =
           Some (ok \<and> (\<forall>b\<in>set bs. \<forall>c\<in>{0..n - 1}.
              mul_value M (mul_value M a b) c = mul_value M a (mul_value M b c)))"
  using assms(3)
proof (induction bs arbitrary: ok)
  case Nil
  then show ?case by simp
next
  case (Cons b bs)
  then have b: "b \<in> {0..n - 1}" and bs: "set bs \<subseteq> {0..n - 1}" by auto
  show ?case
    using Cons.IH [OF bs] assoc_loop_c_extract [OF assms(1,2) b, of "[0..n - 1]"]
    by auto
qed

lemma assoc_loop_a_extract:
  assumes "closed_table n M" "set as \<subseteq> {0..n - 1}"
  shows "assoc_loop_a (extract_table n M) n as ok =
           Some (ok \<and> (\<forall>a\<in>set as. \<forall>b\<in>{0..n - 1}. \<forall>c\<in>{0..n - 1}.
              mul_value M (mul_value M a b) c = mul_value M a (mul_value M b c)))"
  using assms(2)
proof (induction as arbitrary: ok)
  case Nil
  then show ?case by simp
next
  case (Cons a as)
  then have a: "a \<in> {0..n - 1}" and as: "set as \<subseteq> {0..n - 1}" by auto
  show ?case
    using Cons.IH [OF as] assoc_loop_b_extract [OF assms(1) a, of "[0..n - 1]"]
    by auto
qed

lemma has_inv_loop_extract:
  assumes "a \<in> {0..n - 1}" "set bs \<subseteq> {0..n - 1}"
  shows "has_inv_loop (extract_table n M) e a bs =
           Some (\<exists>b\<in>set bs. mul_value M a b = e \<and> mul_value M b a = e)"
  using assms by (induction bs) (auto simp: table_at_extract)

lemma inv_loop_extract:
  assumes "set as \<subseteq> {0..n - 1}"
  shows "inv_loop (extract_table n M) n e as ok =
           Some (ok \<and> (\<forall>a\<in>set as. \<exists>b\<in>{0..n - 1}. mul_value M a b = e \<and> mul_value M b a = e))"
  using assms
proof (induction as arbitrary: ok)
  case Nil
  then show ?case by simp
next
  case (Cons a as)
  then have a: "a \<in> {0..n - 1}" and as: "set as \<subseteq> {0..n - 1}" by auto
  show ?case
    using Cons.IH [OF as] has_inv_loop_extract [OF a, of "[0..n - 1]"]
    by auto
qed

text \<open>Every model of the asserted axioms passes all three checks of the verifier.\<close>

lemma verify_group_passes:
  assumes "satisfies M (add_group_axioms n)"
  shows "verify_group n M (int_value M identity_var) =
           Some \<lparr>identity_ok = True, assoc_ok = True, inv_ok = True\<rparr>"
proof -
  from assms have cl: "closed_table n M" and e: "int_value M identity_var \<in> {0..n - 1}"
    by (simp_all add: satisfies_add_group_axioms satisfies_domain_constraints)
  from assms e have i: "check_identity n (extract_table n M) (int_value M identity_var) = Some True"
    by (simp add: check_identity_def identity_loop_extract satisfies_add_group_axioms
        satisfies_identity_axiom)
  from assms cl have a: "check_associativity n (extract_table n M) = Some True"
    by (simp add: check_associativity_def assoc_loop_a_extract satisfies_add_group_axioms
        associativity_axiom_direct)
  have v: "check_inverses n (extract_table n M) (int_value M identity_var) = Some True"
    by (simp add: check_inverses_def inv_loop_extract joint_inverse_of_axioms [OF assms])
  show ?thesis
    by (simp add: verify_group_def verify_table_def i a v)
qed

text \<open>The verifier does not check closure itself: on the one-element table with entry 1
  the associativity check reads row 1 of a table that has row 0 only.\<close>

lemma verify_group_unclosed_faults: "verify_group 1 unclosed_model 0 = None"
  by code_simp

text \<open>The associativity block adds \<open>n ^ 5\<close> implications.\<close>

lemma length_concat_map_const:
  "(\<And>x. x \<in> set xs \<Longrightarrow> length (f x) = k) \<Longrightarrow> length (concat (map f xs)) = length xs * k"
  by (induction xs) simp_all

lemma length_associativity_axiom: "length (associativity_axiom n) = nat n ^ 5"
proof -
  have "length (associativity_axiom n) = nat n * (nat n * (nat n * (nat n * nat n)))"
    unfolding associativity_axiom_def
    by (simp add: length_concat_map_const)
  then show ?thesis by (simp add: power_numeral_reduce eval_nat_numeral)
qed

section \<open>The claims about GroupFinder\<close>

text \<open>
  Claim C1. For every cardinality \<open>n\<close> and every assignment of the \<open>n\<close>-by-\<open>n\<close> table with
  all entries in \<open>[0, n)\<close>, the asserted case-split encoding of associativity (one
  implication for every \<open>a\<close>, \<open>b\<close>, \<open>c\<close>, \<open>ab\<close>, \<open>bc\<close>) holds if and only if the verifier's
  direct re-check passes, and if and only if
  \<open>table[table[a][b]][c] = table[a][table[b][c]]\<close> for every triple.
\<close>

theorem associativity_encoding_iff_direct_check:
  assumes "closed_table n M"
  shows "(satisfies M (associativity_axiom n) \<longleftrightarrow>
            check_associativity n (extract_table n M) = Some True)
       \<and> (satisfies M (associativity_axiom n) \<longleftrightarrow>
            (\<forall>a\<in>{0..n - 1}. \<forall>b\<in>{0..n - 1}. \<forall>c\<in>{0..n - 1}.
               mul_value M (mul_value M a b) c = mul_value M a (mul_value M b c)))"
  using assms
  by (simp add: check_associativity_def assoc_loop_a_extract associativity_axiom_direct)

theorem associativity_encoding_iff_direct_check_witness:
  "closed_table 2 z2_model \<and> satisfies z2_model (associativity_axiom 2) \<and>
   check_associativity 2 (extract_table 2 z2_model) = Some True"
proof -
  have c: "closed_table 2 z2_model"
    by code_simp
  have s: "satisfies z2_model (associativity_axiom 2)"
    by code_simp
  show ?thesis
    using c s associativity_encoding_iff_direct_check [OF c] by simp
qed

text \<open>
  Claim C2. Every model of the asserted axioms (closure, a two-sided identity, the
  associativity encoding, and for every \<open>a\<close> one disjunction for a right inverse and a
  separate one for a left inverse) gives every element \<open>a\<close> a single \<open>b\<close> with
  \<open>a * b = e\<close> and \<open>b * a = e\<close>, so the verifier's joint inverse check passes on it.
\<close>

theorem one_sided_inverses_give_joint_inverse:
  assumes "satisfies M (add_group_axioms n)"
  shows "check_inverses n (extract_table n M) (int_value M identity_var) = Some True
       \<and> (\<forall>a\<in>{0..n - 1}. \<exists>b\<in>{0..n - 1}.
            mul_value M a b = int_value M identity_var \<and>
            mul_value M b a = int_value M identity_var)"
  by (simp add: check_inverses_def inv_loop_extract joint_inverse_of_axioms [OF assms])

theorem one_sided_inverses_give_joint_inverse_witness:
  "satisfies z2_model (add_group_axioms 2) \<and>
   check_inverses 2 (extract_table 2 z2_model) (int_value z2_model identity_var) = Some True"
proof -
  have s: "satisfies z2_model (add_group_axioms 2)"
    by code_simp
  show ?thesis
    using s one_sided_inverses_give_joint_inverse [OF s] by simp
qed

text \<open>
  Claim C3. For an element \<open>a\<close> in \<open>[0, n)\<close> and a model whose identity has the value
  \<open>e\<close> in \<open>[0, n)\<close>, the two conjunctions of implications asserted for \<open>a\<close> hold if and only
  if \<open>mul[e][a] = a\<close> and \<open>mul[a][e] = a\<close>; the implications at every other candidate
  \<open>e'\<close> are true whatever the table is, and the ones at \<open>e\<close> carry the two equations.
\<close>

theorem identity_encoding_load_bearing:
  assumes "a \<in> {0..n - 1}" and "e \<in> {0..n - 1}" and "int_value M identity_var = e"
  shows "((eval M (MkAnd (left_id n a)) \<and> eval M (MkAnd (right_id n a))) \<longleftrightarrow>
            (mul_value M e a = a \<and> mul_value M a e = a))
       \<and> (\<forall>e'\<in>{0..n - 1}. e' \<noteq> e \<longrightarrow>
            eval M (left_id n a ! nat e') \<and> eval M (right_id n a ! nat e'))
       \<and> ((eval M (left_id n a ! nat e) \<and> eval M (right_id n a ! nat e)) \<longleftrightarrow>
            (mul_value M e a = a \<and> mul_value M a e = a))"
  using assms
  by (auto simp: left_id_def right_id_def list_all_iff mul_table_def identity_def mul_value_def)

theorem identity_encoding_load_bearing_witness:
  "(1::int) \<in> {0..2 - 1} \<and> (0::int) \<in> {0..2 - 1} \<and> int_value z2_model identity_var = 0 \<and>
   eval z2_model (MkAnd (left_id 2 1)) \<and> eval z2_model (MkAnd (right_id 2 1)) \<and>
   eval z2_model (left_id 2 1 ! nat 1) \<and> eval z2_model (right_id 2 1 ! nat 1)"
proof -
  have a: "(1::int) \<in> {0..2 - 1}" and e: "(0::int) \<in> {0..2 - 1}" by simp_all
  have i: "int_value z2_model identity_var = 0" by (simp add: z2_model_def)
  have m: "mul_value z2_model 0 1 = 1 \<and> mul_value z2_model 1 0 = 1"
    by (simp add: z2_model_def mul_value_def)
  note t = identity_encoding_load_bearing [OF a e i]
  from t m have A: "eval z2_model (MkAnd (left_id 2 1)) \<and> eval z2_model (MkAnd (right_id 2 1))"
    by blast
  from t have "\<forall>e'\<in>{0..2 - 1}. e' \<noteq> (0::int) \<longrightarrow>
      eval z2_model (left_id 2 1 ! nat e') \<and> eval z2_model (right_id 2 1 ! nat e')"
    by blast
  from bspec [OF this a]
  have B: "eval z2_model (left_id 2 1 ! nat 1) \<and> eval z2_model (right_id 2 1 ! nat 1)"
    by simp
  from a e i A B show ?thesis by blast
qed

text \<open>
  Claim C8. When every entry of the extracted table and the identity value \<open>e\<close> lie in
  \<open>[0, n)\<close>, every subscript of verify\_group is within bounds: the run returns its three
  verdicts, among them the nested lookups \<open>table[table[a][b]][c]\<close> and
  \<open>table[a][table[b][c]]\<close> and the accesses \<open>table[e][a]\<close> and \<open>table[a][e]\<close>.
\<close>

theorem verify_group_indexing_in_bounds:
  assumes "closed_table n M" and "e \<in> {0..n - 1}"
  shows "\<exists>v. verify_group n M e = Some v"
  using assms
  by (simp add: verify_group_def verify_table_def check_identity_def check_associativity_def
      check_inverses_def identity_loop_extract assoc_loop_a_extract inv_loop_extract)

theorem verify_group_indexing_in_bounds_witness:
  "closed_table 2 z2_model \<and> (0::int) \<in> {0..2 - 1} \<and> (\<exists>v. verify_group 2 z2_model 0 = Some v)"
proof -
  have c: "closed_table 2 z2_model" by code_simp
  have e: "(0::int) \<in> {0..2 - 1}" by simp
  show ?thesis
    using c e verify_group_indexing_in_bounds [OF c e] by simp
qed

section \<open>Facts about the bitmask utilities\<close>

text \<open>\<^verbatim>\<open>1 << n\<close> has a value exactly for \<open>n\<close> from 0 to 30, and then it is \<open>2 ^ n\<close>.\<close>

lemma shift_left_one:
  "shift_left 1 n = (if 0 \<le> n \<and> n \<le> 30 then Some (2 ^ nat n) else None)"
proof -
  consider "n < 0" | "0 \<le> n" "n \<le> 30" | "n = 31" | "32 \<le> n" by linarith
  then show ?thesis
  proof cases
    case 1
    then show ?thesis by (simp add: shift_left_def)
  next
    case 2
    then have "nat n \<le> 30" by simp
    then have "(2::int) ^ nat n \<le> 2 ^ 30" by (intro power_increasing) simp_all
    also have "\<dots> \<le> INT_MAX" by (simp add: INT_MAX_def)
    finally have "push_bit (nat n) (1::int) \<le> INT_MAX" by (simp only: push_bit_of_1)
    with 2 show ?thesis by (simp add: shift_left_def)
  next
    case 3
    have "\<not> push_bit (nat 31) (1::int) \<le> INT_MAX" by (simp add: INT_MAX_def)
    with 3 show ?thesis by (simp add: shift_left_def)
  next
    case 4
    then show ?thesis by (simp add: shift_left_def)
  qed
qed

lemma is_subset_refl: "is_subset i i"
  by (simp add: is_subset_def)

text \<open>The loop on the mask with the \<open>k\<close> lowest bits set runs \<open>k\<close> times and adds 1 each
  time.\<close>

lemma cardinality_loop_mask: "cardinality_loop (mask k) c = Some (c + int k)"
proof (induction k arbitrary: c)
  case 0
  show ?case by (subst cardinality_loop.simps) simp
next
  case (Suc k)
  have nz: "(mask (Suc k) :: int) \<noteq> 0" by (simp add: mask_eq_0_iff)
  have d: "drop_bit 1 (mask (Suc k) :: int) = mask k"
    by (simp add: drop_bit_mask_eq)
  have a: "(mask (Suc k) :: int) AND 1 = 1"
    using even_mask_iff [of "Suc k", where ?'a = int]
    by (simp add: and_one_eq odd_iff_mod_2_eq_one del: mask_Suc_0)
  have "cardinality_loop (mask (Suc k)) c =
          cardinality_loop (drop_bit 1 (mask (Suc k))) (c + (mask (Suc k) AND 1))"
    by (subst cardinality_loop.simps) (simp only: nz not_False_eq_True if_True)
  also have "\<dots> = cardinality_loop (mask k) (c + 1)"
    by (simp only: d a)
  also have "\<dots> = Some (c + 1 + int k)"
    by (rule Suc.IH)
  finally show ?case by simp
qed

section \<open>Satisfaction of the preorder axioms and the loops of the FrameFinder verifiers\<close>

lemma satisfies_encode_monotonicity:
  "satisfies M (encode_monotonicity vars) \<longleftrightarrow>
     (\<forall>i\<in>{0..powerset_size vars - 1}. \<forall>j\<in>{0..powerset_size vars - 1}.
        is_subset i j \<longrightarrow> bool_value M i j)"
  by (auto simp: satisfies_iff encode_monotonicity_def get_R_def Let_def split: if_splits)

lemma satisfies_encode_transitivity:
  "satisfies M (encode_transitivity vars) \<longleftrightarrow>
     (\<forall>i\<in>{0..powerset_size vars - 1}. \<forall>j\<in>{0..powerset_size vars - 1}.
      \<forall>k\<in>{0..powerset_size vars - 1}.
        bool_value M i j \<and> bool_value M j k \<longrightarrow> bool_value M i k)"
  by (auto simp: satisfies_iff encode_transitivity_def get_R_def Let_def)

lemma satisfies_encode_non_triviality:
  "satisfies M (encode_non_triviality vars) \<longleftrightarrow> \<not> bool_value M (powerset_size vars - 1) 0"
  by (simp add: satisfies_def encode_non_triviality_def get_R_def Let_def)

text \<open>Neither the transitivity encoder nor the non-triviality encoder adds a bare
  \<^verbatim>\<open>R[i][i]\<close>: in this revision it comes from the monotonicity encoder alone.\<close>

lemma no_reflexivity_outside_monotonicity:
  "get_R vars i i \<notin> set (encode_transitivity vars @ encode_non_triviality vars)"
  by (auto simp: encode_transitivity_def encode_non_triviality_def get_R_def Let_def)

lemma matrix_at_extract:
  assumes "i \<in> {0..powerset_size vars - 1}" "j \<in> {0..powerset_size vars - 1}"
  shows "matrix_at (extract_matrix vars M) i j = bool_value M i j"
  using assms by (simp add: matrix_at_def extract_matrix_def get_R_def Let_def)

lemma reflexive_loop_extract:
  assumes "set is \<subseteq> {0..powerset_size vars - 1}"
  shows "reflexive_loop (extract_matrix vars M) is \<longleftrightarrow> (\<forall>i\<in>set is. bool_value M i i)"
  using assms by (induction "is") (auto simp: matrix_at_extract)

lemma monotonicity_loop_j_extract:
  assumes "i \<in> {0..powerset_size vars - 1}" "set js \<subseteq> {0..powerset_size vars - 1}"
  shows "monotonicity_loop_j (extract_matrix vars M) i js ok \<longleftrightarrow>
           ok \<and> (\<forall>j\<in>set js. is_subset i j \<longrightarrow> bool_value M i j)"
  using assms by (induction js arbitrary: ok) (auto simp: matrix_at_extract)

lemma monotonicity_loop_i_extract:
  assumes "set is \<subseteq> {0..powerset_size vars - 1}"
  shows "monotonicity_loop_i (extract_matrix vars M) (powerset_size vars) is ok \<longleftrightarrow>
           ok \<and> (\<forall>i\<in>set is. \<forall>j\<in>{0..powerset_size vars - 1}.
                   is_subset i j \<longrightarrow> bool_value M i j)"
  using assms
proof (induction "is" arbitrary: ok)
  case Nil
  then show ?case by simp
next
  case (Cons i "is")
  then have i: "i \<in> {0..powerset_size vars - 1}" and r: "set is \<subseteq> {0..powerset_size vars - 1}"
    by auto
  show ?case
    using Cons.IH [OF r] monotonicity_loop_j_extract [OF i, of "[0..powerset_size vars - 1]"]
    by auto
qed

lemma transitive_loop_k_extract:
  assumes "i \<in> {0..powerset_size vars - 1}" "j \<in> {0..powerset_size vars - 1}"
    "set ks \<subseteq> {0..powerset_size vars - 1}"
  shows "transitive_loop_k (extract_matrix vars M) i j ks ok \<longleftrightarrow>
           ok \<and> (\<forall>k\<in>set ks. bool_value M i j \<and> bool_value M j k \<longrightarrow> bool_value M i k)"
  using assms by (induction ks arbitrary: ok) (auto simp: matrix_at_extract)

lemma transitive_loop_j_extract:
  assumes "i \<in> {0..powerset_size vars - 1}" "set js \<subseteq> {0..powerset_size vars - 1}"
  shows "transitive_loop_j (extract_matrix vars M) (powerset_size vars) i js ok \<longleftrightarrow>
           ok \<and> (\<forall>j\<in>set js. \<forall>k\<in>{0..powerset_size vars - 1}.
                   bool_value M i j \<and> bool_value M j k \<longrightarrow> bool_value M i k)"
  using assms(2)
proof (induction js arbitrary: ok)
  case Nil
  then show ?case by simp
next
  case (Cons j js)
  then have j: "j \<in> {0..powerset_size vars - 1}" and r: "set js \<subseteq> {0..powerset_size vars - 1}"
    by auto
  show ?case
    using Cons.IH [OF r]
      transitive_loop_k_extract [OF assms(1) j, of "[0..powerset_size vars - 1]"]
    by auto
qed

lemma transitive_loop_i_extract:
  assumes "set is \<subseteq> {0..powerset_size vars - 1}"
  shows "transitive_loop_i (extract_matrix vars M) (powerset_size vars) is ok \<longleftrightarrow>
           ok \<and> (\<forall>i\<in>set is. \<forall>j\<in>{0..powerset_size vars - 1}.
                  \<forall>k\<in>{0..powerset_size vars - 1}.
                   bool_value M i j \<and> bool_value M j k \<longrightarrow> bool_value M i k)"
  using assms
proof (induction "is" arbitrary: ok)
  case Nil
  then show ?case by simp
next
  case (Cons i "is")
  then have i: "i \<in> {0..powerset_size vars - 1}" and r: "set is \<subseteq> {0..powerset_size vars - 1}"
    by auto
  show ?case
    using Cons.IH [OF r] transitive_loop_j_extract [OF i, of "[0..powerset_size vars - 1]"]
    by auto
qed

lemma verify_monotonicity_extract:
  "verify_monotonicity vars (extract_matrix vars M) = Inr () \<longleftrightarrow>
     (\<forall>i\<in>{0..powerset_size vars - 1}. \<forall>j\<in>{0..powerset_size vars - 1}.
        is_subset i j \<longrightarrow> bool_value M i j)"
  by (simp add: verify_monotonicity_def Let_def monotonicity_loop_i_extract)

lemma two_checks_pass:
  "(if \<not> a then Inl x else if \<not> t then Inl y else Inr ()) = Inr () \<longleftrightarrow> a \<and> t"
  by (cases a; cases t; simp)

lemma verify_preorder_extract:
  "verify_preorder vars (extract_matrix vars M) = Inr () \<longleftrightarrow>
     (\<forall>i\<in>{0..powerset_size vars - 1}. bool_value M i i) \<and>
     (\<forall>i\<in>{0..powerset_size vars - 1}. \<forall>j\<in>{0..powerset_size vars - 1}.
      \<forall>k\<in>{0..powerset_size vars - 1}.
        bool_value M i j \<and> bool_value M j k \<longrightarrow> bool_value M i k)"
proof -
  let ?ps = "powerset_size vars"
  have r: "reflexive_loop (extract_matrix vars M) [0..?ps - 1] \<longleftrightarrow>
             (\<forall>i\<in>{0..?ps - 1}. bool_value M i i)"
    using reflexive_loop_extract [of "[0..?ps - 1]" vars M] by simp
  have t: "transitive_loop_i (extract_matrix vars M) ?ps [0..?ps - 1] True \<longleftrightarrow>
             (\<forall>i\<in>{0..?ps - 1}. \<forall>j\<in>{0..?ps - 1}. \<forall>k\<in>{0..?ps - 1}.
                bool_value M i j \<and> bool_value M j k \<longrightarrow> bool_value M i k)"
    using transitive_loop_i_extract [of "[0..?ps - 1]" vars M True] by simp
  show ?thesis
    unfolding verify_preorder_def Let_def r t by (rule two_checks_pass)
qed

text \<open>Every model of what main asserts passes the three verifiers of display\_model, so
  no assertion ends the process.\<close>

lemma display_model_passes:
  assumes "satisfies M (main_axioms vars)" and "1 \<le> powerset_size vars"
  shows "display_model vars M = Inr ()"
proof -
  from assms(1) have mono: "satisfies M (encode_monotonicity vars)"
    and trans: "satisfies M (encode_transitivity vars)"
    and nt: "satisfies M (encode_non_triviality vars)"
    by (simp_all add: main_axioms_def satisfies_append)
  from mono have r: "\<forall>i\<in>{0..powerset_size vars - 1}. bool_value M i i"
    by (simp add: satisfies_encode_monotonicity is_subset_refl)
  with trans have p: "verify_preorder vars (extract_matrix vars M) = Inr ()"
    by (simp only: verify_preorder_extract satisfies_encode_transitivity simp_thms)
  from mono have m: "verify_monotonicity vars (extract_matrix vars M) = Inr ()"
    by (simp only: verify_monotonicity_extract satisfies_encode_monotonicity)
  from nt assms(2) have n: "verify_non_triviality vars (extract_matrix vars M) = Inr ()"
    by (simp add: verify_non_triviality_def satisfies_encode_non_triviality matrix_at_extract)
  show ?thesis
    by (simp add: display_model_def p m n)
qed

section \<open>The claims about the preorder family\<close>

text \<open>
  Claim C4. For a universe size \<open>n\<close> from 0 to 30 (where \<^verbatim>\<open>1 << n\<close> is \<open>2 ^ n\<close>) and every
  index \<open>i\<close> in \<open>0..2^n - 1\<close>, the proposition \<open>R[i][i]\<close> is in the set handed to the solver
  in both revisions: add\_preorder\_axioms of PartialPreorderFinder adds it as its
  reflexivity axiom, and in the FrameFinder revision the set that main asserts holds it
  through the monotonicity encoder.
\<close>

theorem reflexivity_asserted_in_both_revisions:
  assumes "0 \<le> n" and "n \<le> 30" and "i \<in> {0..2 ^ nat n - 1}"
  shows "\<exists>f vars. PartialPreorderFinder n = Some f \<and> finder_powerset_size f = 2 ^ nat n
           \<and> finder_R f i i \<in> set (add_preorder_axioms f)
           \<and> FrameVariables n = Some vars \<and> powerset_size vars = 2 ^ nat n
           \<and> get_R vars i i \<in> set (encode_monotonicity vars)
           \<and> get_R vars i i \<in> set (main_axioms vars)"
proof -
  let ?f = "\<lparr>finder_n = n, finder_powerset_size = 2 ^ nat n\<rparr>"
  let ?vars = "\<lparr>universe_size = n, powerset_size = 2 ^ nat n\<rparr>"
  have f: "PartialPreorderFinder n = Some ?f"
    using assms(1,2) by (simp add: PartialPreorderFinder_def shift_left_one)
  have v: "FrameVariables n = Some ?vars"
    using assms(1,2) by (simp add: FrameVariables_def shift_left_one)
  have a: "finder_R ?f i i \<in> set (add_preorder_axioms ?f)"
    using assms(3) by (simp add: add_preorder_axioms_def finder_R_def Let_def)
  have "is_subset i i" by (rule is_subset_refl)
  with assms(3) have e: "get_R ?vars i i \<in> set (encode_monotonicity ?vars)"
    by (auto simp: encode_monotonicity_def get_R_def Let_def)
  then have m: "get_R ?vars i i \<in> set (main_axioms ?vars)"
    by (simp add: main_axioms_def)
  from f v a e m show ?thesis by simp
qed

theorem reflexivity_asserted_in_both_revisions_witness:
  "\<exists>f vars. PartialPreorderFinder 1 = Some f \<and> finder_R f 1 1 \<in> set (add_preorder_axioms f)
           \<and> FrameVariables 1 = Some vars \<and> get_R vars 1 1 \<in> set (main_axioms vars)"
  using reflexivity_asserted_in_both_revisions [of 1 1] by auto

text \<open>
  Claim C5. For universe size 0 the powerset has one subset, the full set and the empty
  set are both index 0, monotonicity asserts \<open>R[0][0]\<close> and the strict non-triviality
  axiom asserts its negation: no model satisfies the two together, nor the whole set
  that main asserts. A solver that answers SAT only with a model of the assertion set
  therefore cannot answer SAT: the run ends in no assertion and reports UNSAT (or
  UNKNOWN, when the solver gives up).
\<close>

theorem universe_zero_strict_non_triviality_unsat:
  "\<exists>vars. FrameVariables 0 = Some vars \<and> powerset_size vars = 1
      \<and> encode_monotonicity vars = [get_R vars 0 0]
      \<and> encode_non_triviality vars = [Neg (get_R vars 0 0)]
      \<and> (\<forall>M. \<not> satisfies M (encode_monotonicity vars @ encode_non_triviality vars))
      \<and> (\<forall>M. \<not> satisfies M (main_axioms vars))
      \<and> (\<forall>check. (\<forall>cs M. check cs = Sat M \<longrightarrow> satisfies M cs) \<longrightarrow>
            frame_finder_main 0 check =
              Some (Inr (if check (main_axioms vars) = Unknown
                         then UNKNOWN_Solver_could_not_determine
                         else UNSAT_No_solution_exists)))"
proof -
  let ?vars = "\<lparr>universe_size = 0, powerset_size = 1\<rparr>"
  have v: "FrameVariables 0 = Some ?vars"
    by (simp add: FrameVariables_def shift_left_one)
  have m: "encode_monotonicity ?vars = [get_R ?vars 0 0]"
    by (simp add: encode_monotonicity_def is_subset_refl)
  have t: "encode_non_triviality ?vars = [Neg (get_R ?vars 0 0)]"
    by (simp add: encode_non_triviality_def)
  have u: "\<not> satisfies M (encode_monotonicity ?vars @ encode_non_triviality ?vars)" for M
    by (simp add: m t satisfies_def)
  then have u': "\<not> satisfies M (main_axioms ?vars)" for M
    by (simp add: main_axioms_def satisfies_append)
  have r: "frame_finder_main 0 check =
              Some (Inr (if check (main_axioms ?vars) = Unknown
                         then UNKNOWN_Solver_could_not_determine
                         else UNSAT_No_solution_exists))"
    if sound: "\<forall>cs M. check cs = Sat M \<longrightarrow> satisfies M cs" for check
  proof (cases "check (main_axioms ?vars)")
    case (Sat M)
    with sound have "satisfies M (main_axioms ?vars)" by blast
    with u' show ?thesis by blast
  next
    case Unsat
    then show ?thesis by (simp add: frame_finder_main_def v)
  next
    case Unknown
    then show ?thesis by (simp add: frame_finder_main_def v)
  qed
  from v m t u u' r show ?thesis by auto
qed

theorem universe_zero_strict_non_triviality_unsat_witness:
  "frame_finder_main 0 (\<lambda>cs. Unsat) = Some (Inr UNSAT_No_solution_exists)"
proof -
  from universe_zero_strict_non_triviality_unsat obtain vars where
    r: "\<forall>check. (\<forall>cs M. check cs = Sat M \<longrightarrow> satisfies M cs) \<longrightarrow>
            frame_finder_main 0 check =
              Some (Inr (if check (main_axioms vars) = Unknown
                         then UNKNOWN_Solver_could_not_determine
                         else UNSAT_No_solution_exists))"
    by blast
  from r [rule_format, of "\<lambda>cs. Unsat"] show ?thesis by simp
qed

text \<open>
  Claim C6. When the assertion set contains what the monotonicity encoder adds, every
  model of the set has \<open>R[i][j]\<close> true in the extracted matrix for every pair of
  bitmasks \<open>i\<close>, \<open>j\<close> with \<open>is_subset i j\<close>, and verify\_monotonicity passes on it.
\<close>

theorem asserted_monotonicity_passes_recheck:
  assumes "set (encode_monotonicity vars) \<subseteq> set cs" and "satisfies M cs"
  shows "(\<forall>i\<in>{0..powerset_size vars - 1}. \<forall>j\<in>{0..powerset_size vars - 1}.
            is_subset i j \<longrightarrow> matrix_at (extract_matrix vars M) i j)
       \<and> verify_monotonicity vars (extract_matrix vars M) = Inr ()"
proof -
  from assms have "satisfies M (encode_monotonicity vars)"
    by (auto simp: satisfies_iff)
  then have *: "\<forall>i\<in>{0..powerset_size vars - 1}. \<forall>j\<in>{0..powerset_size vars - 1}.
            is_subset i j \<longrightarrow> bool_value M i j"
    by (simp add: satisfies_encode_monotonicity)
  then show ?thesis
    by (simp add: verify_monotonicity_extract matrix_at_extract)
qed

theorem asserted_monotonicity_passes_recheck_witness:
  "set (encode_monotonicity two_subsets) \<subseteq> set (main_axioms two_subsets) \<and>
   satisfies subset_order (main_axioms two_subsets) \<and>
   verify_monotonicity two_subsets (extract_matrix two_subsets subset_order) = Inr ()"
proof -
  have s: "set (encode_monotonicity two_subsets) \<subseteq> set (main_axioms two_subsets)"
    by (auto simp: main_axioms_def)
  have m: "satisfies subset_order (main_axioms two_subsets)"
    by code_simp
  from s m asserted_monotonicity_passes_recheck [OF s m] show ?thesis by simp
qed

text \<open>
  Claim C7. \<open>is_subset i i\<close> holds for every integer \<open>i\<close>, so the monotonicity encoder
  asserts \<open>R[i][i]\<close> for every index; hence every model of the set that main asserts in
  the FrameFinder revision is reflexive, and verify\_preorder does not end in its
  reflexivity assertion on the matrix extracted from it.
\<close>

theorem monotonicity_forces_reflexivity:
  assumes "satisfies M (main_axioms vars)"
  shows "(\<forall>i. is_subset i i)
       \<and> (\<forall>i\<in>{0..powerset_size vars - 1}. get_R vars i i \<in> set (encode_monotonicity vars))
       \<and> (\<forall>i\<in>{0..powerset_size vars - 1}. matrix_at (extract_matrix vars M) i i)
       \<and> verify_preorder vars (extract_matrix vars M) \<noteq> Inl Reflexivity_check_failed"
proof -
  have a: "\<forall>i\<in>{0..powerset_size vars - 1}. get_R vars i i \<in> set (encode_monotonicity vars)"
    by (auto simp: encode_monotonicity_def get_R_def Let_def is_subset_refl)
  from assms have "satisfies M (encode_monotonicity vars)"
    by (simp add: main_axioms_def satisfies_append)
  then have r: "\<forall>i\<in>{0..powerset_size vars - 1}. bool_value M i i"
    by (simp add: satisfies_encode_monotonicity is_subset_refl)
  then have "verify_preorder vars (extract_matrix vars M) \<noteq> Inl Reflexivity_check_failed"
    by (simp add: verify_preorder_def Let_def reflexive_loop_extract)
  with a r show ?thesis
    by (simp add: is_subset_refl matrix_at_extract)
qed

theorem monotonicity_forces_reflexivity_witness:
  "satisfies subset_order (main_axioms two_subsets) \<and>
   verify_preorder two_subsets (extract_matrix two_subsets subset_order)
     \<noteq> Inl Reflexivity_check_failed"
proof -
  have m: "satisfies subset_order (main_axioms two_subsets)"
    by code_simp
  from m monotonicity_forces_reflexivity [OF m] show ?thesis by simp
qed

section \<open>The claims about the bitmask utilities\<close>

text \<open>
  Claim C9. For every universe size \<open>n\<close> from 0 to 30, where \<^verbatim>\<open>1 << n\<close> does not overflow,
  and every mask, both calls of set\_complement return and
  \<open>set_complement (set_complement mask n) n = mask\<close>.
\<close>

theorem set_complement_round_trip:
  assumes "0 \<le> n" and "n \<le> 30"
  shows "(set_complement msk n \<bind> (\<lambda>c. set_complement c n)) = Some msk"
  using assms by (simp add: set_complement_def shift_left_one)

theorem set_complement_round_trip_witness:
  "(0::int) \<le> 3 \<and> (3::int) \<le> 30 \<and> (set_complement 5 3 \<bind> (\<lambda>c. set_complement c 3)) = Some 5"
  using set_complement_round_trip [of 3 5] by simp

text \<open>
  Claim C10. For every universe size \<open>n\<close> from 0 to 30, the popcount loop returns on the
  full mask \<open>(1 << n) - 1\<close>, and what it returns is \<open>n\<close>.
\<close>

theorem cardinality_full_mask:
  assumes "0 \<le> n" and "n \<le> 30"
  shows "(shift_left 1 n \<bind> (\<lambda>full. cardinality (full - 1))) = Some n"
proof -
  have s: "shift_left 1 n = Some (2 ^ nat n)"
    using assms by (simp add: shift_left_one)
  have "cardinality (2 ^ nat n - 1) = cardinality_loop (mask (nat n)) 0"
    by (simp only: cardinality_def mask_eq_exp_minus_1)
  also have "\<dots> = Some (0 + int (nat n))"
    by (rule cardinality_loop_mask)
  finally have "cardinality (2 ^ nat n - 1) = Some n"
    using assms by simp
  with s show ?thesis by simp
qed

theorem cardinality_full_mask_witness:
  "(0::int) \<le> 3 \<and> (3::int) \<le> 30 \<and> (shift_left 1 3 \<bind> (\<lambda>full. cardinality (full - 1))) = Some 3"
  using cardinality_full_mask [of 3] by simp

end
